theory Spec2Isabelle
  imports Main
begin

section \<open>Object retention and bucket encryption of the openstor Go client\<close>

text \<open>
  A shallow embedding of the object-retention file (\<open>newObjectRetention\<close>,
  \<open>PutObjectRetention\<close>, \<open>GetObjectRetention\<close>) and of
  \<open>api-bucket-encryption.go\<close> (\<open>SetBucketEncryption\<close>,
  \<open>RemoveBucketEncryption\<close>, \<open>GetBucketEncryption\<close>).
  Go pointers that may be nil are \<open>option\<close>s, a Go \<open>error\<close> result is an
  \<open>error option\<close> (\<open>None\<close> is nil), and the remote store is an explicit
  state of type \<open>'w\<close> that only the transport reads and writes.
\<close>

subsection \<open>Retention mode\<close>

text \<open>
  Modelled from the spec: the type \<open>RetentionMode\<close>, its constants
  \<open>Governance\<close> and \<open>Compliance\<close> and its method \<open>IsValid\<close> are
  declared in a file of the package that is not among the sources. The retention file shows
  that the type is a string type (it is marshalled as character data and compared by
  value); the spec gives the two valid values, \<open>GOVERNANCE\<close> and \<open>COMPLIANCE\<close>,
  and says that no other value is valid.
\<close>

type_synonym RetentionMode = string

definition Governance :: RetentionMode where
  "Governance = ''GOVERNANCE''"

definition Compliance :: RetentionMode where
  "Compliance = ''COMPLIANCE''"

definition IsValid :: "RetentionMode \<Rightarrow> bool" where
  "IsValid r \<longleftrightarrow> r = Governance \<or> r = Compliance"

subsection \<open>Time\<close>

text \<open>
  \<open>time.Time\<close> of the standard library, as the instant it denotes: the seconds since
  January 1 of year 1, 00:00:00 UTC, and the nanoseconds within the second. (The location
  and the monotonic clock reading are left out.) \<open>IsZero\<close> is the library's test
  \<open>t.sec() == 0 && t.nsec() == 0\<close>.
\<close>

record Time =
  sec :: int
  nsec :: int

definition IsZero :: "Time \<Rightarrow> bool" where
  "IsZero t \<longleftrightarrow> sec t = 0 \<and> nsec t = 0"

subsection \<open>Responses and errors\<close>

datatype http_method = MethodGet | MethodPut | MethodDelete

text \<open>The part of \<open>http.Response\<close> the two files read.\<close>

record response =
  StatusCode :: int
  Body :: string

definition StatusOK :: int where
  "StatusOK = 200"

definition StatusNoContent :: int where
  "StatusNoContent = 204"

text \<open>
  The error values of the two files.
  \<^item> \<open>InvalidRetentionMode m\<close> is \<open>fmt.Errorf("invalid retention mode `%v`", mode)\<close>.
  \<^item> \<open>InvalidArgument msg\<close> is \<open>errInvalidArgument(msg)\<close> and
    \<open>ErrorResponse resp bucket object\<close> is
    \<open>httpRespToErrorResponse(resp, bucket, object)\<close>; both functions are declared
    outside the sources, so the model keeps the call with its arguments.
  \<^item> \<open>External msg\<close> is an error of a collaborator (name validation, transport,
    codec), returned unchanged.
  \<^item> \<open>NilPointerDereference\<close> is the run-time panic of reading a field of a nil
    response.
\<close>

datatype error =
    InvalidRetentionMode RetentionMode
  | InvalidArgument string
  | ErrorResponse response string string
  | External string
  | NilPointerDereference

subsection \<open>XML documents\<close>

text \<open>
  \<open>encoding/xml\<close> is the standard library. A document is modelled as the tree of
  elements and character data that the library's encoder writes and its tokenizer reads;
  \<open>xml_Name\<close> is \<open>xml.Name\<close>. Attribute names carry no namespace here.
\<close>

record xml_Name =
  Space :: string
  Local :: string

datatype xml =
    Element xml_Name "(string \<times> string) list" "xml list"
  | CharData string

definition local_name :: "string \<Rightarrow> xml_Name" where
  "local_name n = \<lparr>Space = '''', Local = n\<rparr>"

text \<open>
  \<open>xml.EscapeText\<close> on ASCII text: the five markup characters, tab, line feed and
  carriage return become character references, the other control characters become
  U+FFFD (three bytes in UTF-8), every other byte is copied. (On bytes above 127 the
  library also replaces invalid UTF-8 by U+FFFD; that is left out.)
\<close>

definition escape_char :: "char \<Rightarrow> string" where
  "escape_char c =
     (if c = CHR ''\"'' then ''&#34;''
      else if c = CHR 0x27 then ''&#39;''
      else if c = CHR ''&'' then ''&amp;''
      else if c = CHR ''<'' then ''&lt;''
      else if c = CHR ''>'' then ''&gt;''
      else if c = CHR 0x09 then ''&#x9;''
      else if c = CHR 0x0A then ''&#xA;''
      else if c = CHR 0x0D then ''&#xD;''
      else if (of_char c :: nat) < 32 then [CHR 0xEF, CHR 0xBF, CHR 0xBD]
      else [c])"

definition EscapeText :: "string \<Rightarrow> string" where
  "EscapeText s = concat (map escape_char s)"

text \<open>
  The bytes the encoder writes for a tree: a start tag with the namespace of the name (if
  any) and the attributes with a non-empty name, the children, and an end tag; there are no
  self-closing tags.
\<close>

definition render_attr :: "string \<times> string \<Rightarrow> string" where
  "render_attr a =
     (if fst a = '''' then ''''
      else '' '' @ fst a @ ''=\"'' @ EscapeText (snd a) @ ''\"'')"

fun render :: "xml \<Rightarrow> string" where
  "render (CharData s) = EscapeText s"
| "render (Element n attrs children) =
     ''<'' @ Local n
       @ (if Space n = '''' then '''' else '' xmlns=\"'' @ EscapeText (Space n) @ ''\"'')
       @ concat (map render_attr attrs)
       @ ''>''
       @ concat (map render children)
       @ ''</'' @ Local n @ ''>''"

text \<open>
  The character data directly below an element, concatenated: what the decoder hands to a
  string field or to \<open>UnmarshalText\<close> (nested elements are skipped).
\<close>

fun chardata_of :: "xml list \<Rightarrow> string" where
  "chardata_of [] = ''''"
| "chardata_of (CharData s # rest) = s @ chardata_of rest"
| "chardata_of (Element n attrs children # rest) = chardata_of rest"

subsection \<open>The collaborators\<close>

text \<open>
  Everything the two files call that is declared outside them: the name validators of
  \<open>s3utils\<close>, the transport \<open>executeMethod\<close> of the client (which reads and
  writes the remote store \<open>'w\<close>), the two digests, two constants, the text codec of
  \<open>time.Time\<close>, the tokenizer of \<open>encoding/xml\<close> (the first element of a
  byte stream as a name, its attributes and its content, or an error), and the codec of
  \<open>sse.Configuration\<close> (a type \<open>'cfg\<close> of another package).
\<close>

record requestMetadata =
  bucketName :: string
  objectName :: string
  queryValues :: "string \<rightharpoonup> string list"
  customHeader :: "string \<rightharpoonup> string list"
  contentBody :: "string option"
  contentLength :: int
  contentMD5Base64 :: string
  contentSHA256Hex :: string

record ('w, 'cfg) Client =
  CheckValidBucketName :: "string \<Rightarrow> error option"
  CheckValidObjectName :: "string \<Rightarrow> error option"
  executeMethod ::
    "http_method \<Rightarrow> requestMetadata \<Rightarrow> 'w \<Rightarrow> (response option \<times> error option) \<times> 'w"
  sumMD5Base64 :: "string \<Rightarrow> string"
  sum256Hex :: "string \<Rightarrow> string"
  amzBypassGovernance :: string
  emptySHA256Hex :: string
  MarshalText :: "Time \<Rightarrow> error + string"
  UnmarshalText :: "string \<Rightarrow> error + Time"
  xml_Token :: "string \<Rightarrow> error + xml_Name \<times> (string \<times> string) list \<times> xml list"
  xml_Marshal_sse :: "'cfg \<Rightarrow> error + string"
  xmlDecoder_sse :: "string \<Rightarrow> error + 'cfg"

text \<open>
  \<open>url.Values.Set\<close> and \<open>http.Header.Set\<close> replace the values of a key by
  the one value given. (\<open>http.Header\<close> puts a name in canonical form both when it
  stores and when it looks up; the model's key is the name as given.)
\<close>

definition Values_Set :: "(string \<rightharpoonup> string list) \<Rightarrow> string \<Rightarrow> string \<Rightarrow> (string \<rightharpoonup> string list)" where
  "Values_Set v key val = v(key \<mapsto> [val])"

definition Header_Set :: "(string \<rightharpoonup> string list) \<Rightarrow> string \<Rightarrow> string \<Rightarrow> (string \<rightharpoonup> string list)" where
  "Header_Set h key val = h(key \<mapsto> [val])"

subsection \<open>The retention document: lines 37-58\<close>

record objectRetention =
  XMLNS :: string
  XMLName :: xml_Name
  Mode :: RetentionMode
  RetainUntilDate :: "Time option"

text \<open>\<open>&objectRetention{}\<close>: every field has its zero value.\<close>

definition zero_objectRetention :: objectRetention where
  "zero_objectRetention =
     \<lparr>XMLNS = '''', XMLName = \<lparr>Space = '''', Local = ''''\<rparr>, Mode = '''', RetainUntilDate = None\<rparr>"

definition newObjectRetention :: "RetentionMode option \<Rightarrow> Time option \<Rightarrow> error + objectRetention" where
  "newObjectRetention mode date =
     (let r0 = zero_objectRetention;
          r1 = (case date of
                  None \<Rightarrow> r0
                | Some t \<Rightarrow> if \<not> IsZero t then r0\<lparr>RetainUntilDate := date\<rparr> else r0)
      in case mode of
           None \<Rightarrow> Inr r1
         | Some m \<Rightarrow> if \<not> IsValid m then Inl (InvalidRetentionMode m) else Inr (r1\<lparr>Mode := m\<rparr>))"

text \<open>
  \<open>xml.Marshal\<close> on an \<open>objectRetention\<close>, as the field tags of lines 38-41 fix
  it. The element is named by the tag of \<open>XMLName\<close>; \<open>XMLNS\<close> is the attribute
  \<open>xmlns\<close>, \<open>Mode\<close> and \<open>RetainUntilDate\<close> are child elements in that
  order, and \<open>omitempty\<close> leaves out an empty string and a nil pointer. A time is
  written by its \<open>MarshalText\<close>, whose error fails the whole call.
\<close>

definition text_content :: "string \<Rightarrow> xml list" where
  "text_content s = (if s = '''' then [] else [CharData s])"

definition marshal_objectRetention :: "(Time \<Rightarrow> error + string) \<Rightarrow> objectRetention \<Rightarrow> error + xml" where
  "marshal_objectRetention marshalText r =
     (let attrs = (if XMLNS r = '''' then [] else [(''xmlns'', XMLNS r)]);
          mode = (if Mode r = '''' then [] else [Element (local_name ''Mode'') [] (text_content (Mode r))])
      in case RetainUntilDate r of
           None \<Rightarrow> Inr (Element (local_name ''Retention'') attrs mode)
         | Some t \<Rightarrow>
             (case marshalText t of
                Inl err \<Rightarrow> Inl err
              | Inr s \<Rightarrow>
                  Inr (Element (local_name ''Retention'') attrs
                         (mode @ [Element (local_name ''RetainUntilDate'') [] (text_content s)]))))"

definition xml_Marshal :: "('w, 'cfg) Client \<Rightarrow> objectRetention \<Rightarrow> error + string" where
  "xml_Marshal c r =
     (case marshal_objectRetention (MarshalText c) r of
        Inl err \<Rightarrow> Inl err
      | Inr doc \<Rightarrow> Inr (render doc))"

text \<open>
  \<open>Decode\<close> into an \<open>objectRetention\<close>. The start element must have the local
  name of the tag of \<open>XMLName\<close>, and the field records the name read. Every
  attribute with the local name \<open>xmlns\<close> is stored in \<open>XMLNS\<close>. The children are
  read in document order: a \<open>Mode\<close> element stores its character data, a
  \<open>RetainUntilDate\<close> element allocates the time and parses its character data with
  \<open>UnmarshalText\<close> (an error ends the decoding), every other child is skipped.
  The library decodes while it reads; here the element is read first, so on a body with
  both a syntax error and a field that does not parse the model may return the other of
  the two errors. Whether the decoding fails is the same.
\<close>

fun unmarshal_attrs :: "(string \<times> string) list \<Rightarrow> objectRetention \<Rightarrow> objectRetention" where
  "unmarshal_attrs [] r = r"
| "unmarshal_attrs (a # rest) r =
     unmarshal_attrs rest (if fst a = ''xmlns'' then r\<lparr>XMLNS := snd a\<rparr> else r)"

fun unmarshal_children ::
  "(string \<Rightarrow> error + Time) \<Rightarrow> xml list \<Rightarrow> objectRetention \<Rightarrow> error + objectRetention" where
  "unmarshal_children unmarshalText [] r = Inr r"
| "unmarshal_children unmarshalText (CharData s # rest) r =
     unmarshal_children unmarshalText rest r"
| "unmarshal_children unmarshalText (Element n attrs children # rest) r =
     (if Local n = ''Mode'' then
        unmarshal_children unmarshalText rest (r\<lparr>Mode := chardata_of children\<rparr>)
      else if Local n = ''RetainUntilDate'' then
        (case unmarshalText (chardata_of children) of
           Inl err \<Rightarrow> Inl err
         | Inr t \<Rightarrow> unmarshal_children unmarshalText rest (r\<lparr>RetainUntilDate := Some t\<rparr>))
      else unmarshal_children unmarshalText rest r)"

definition unmarshal_objectRetention ::
  "(string \<Rightarrow> error + Time) \<Rightarrow> xml_Name \<times> (string \<times> string) list \<times> xml list
     \<Rightarrow> objectRetention \<Rightarrow> error + objectRetention" where
  "unmarshal_objectRetention unmarshalText start r =
     (case start of (n, attrs, children) \<Rightarrow>
        if Local n \<noteq> ''Retention'' then
          Inl (External (''expected element type <Retention> but have <'' @ Local n @ ''>''))
        else unmarshal_children unmarshalText children (unmarshal_attrs attrs (r\<lparr>XMLName := n\<rparr>)))"

definition xml_Decode :: "('w, 'cfg) Client \<Rightarrow> string \<Rightarrow> objectRetention \<Rightarrow> error + objectRetention" where
  "xml_Decode c body r =
     (case xml_Token c body of
        Inl err \<Rightarrow> Inl err
      | Inr start \<Rightarrow> unmarshal_objectRetention (UnmarshalText c) start r)"

subsection \<open>PutObjectRetention: lines 60-138\<close>

text \<open>
  The options of the caller. The fields \<open>Mode\<close> and \<open>RetainUntilDate\<close> of the Go
  struct are \<open>opts_Mode\<close> and \<open>opts_RetainUntilDate\<close> here, since
  \<open>objectRetention\<close> has fields of the same names.
\<close>

record PutObjectRetentionOptions =
  GovernanceBypass :: bool
  opts_Mode :: "RetentionMode option"
  opts_RetainUntilDate :: "Time option"
  VersionID :: string

text \<open>
  Lines 79-124: the validation and the \<open>requestMetadata\<close> handed to the transport,
  or the error returned before the transport is reached.
\<close>

definition PutObjectRetention_request ::
  "('w, 'cfg) Client \<Rightarrow> string \<Rightarrow> string \<Rightarrow> PutObjectRetentionOptions \<Rightarrow> error + requestMetadata" where
  "PutObjectRetention_request c bucket object opts =
     (case CheckValidBucketName c bucket of
        Some err \<Rightarrow> Inl err
      | None \<Rightarrow>
     (case CheckValidObjectName c object of
        Some err \<Rightarrow> Inl err
      | None \<Rightarrow>
     (let urlValues0 = Values_Set Map.empty ''retention'' '''';
          urlValues = (if VersionID opts \<noteq> ''''
                       then Values_Set urlValues0 ''versionId'' (VersionID opts)
                       else urlValues0)
      in case newObjectRetention (opts_Mode opts) (opts_RetainUntilDate opts) of
           Inl err \<Rightarrow> Inl err
         | Inr retention \<Rightarrow>
        (case xml_Marshal c retention of
           Inl err \<Rightarrow> Inl err
         | Inr retentionData \<Rightarrow>
        (let headers = (if GovernanceBypass opts
                        then Header_Set Map.empty (amzBypassGovernance c) ''true''
                        else Map.empty)
         in Inr \<lparr>bucketName = bucket,
                  objectName = object,
                  queryValues = urlValues,
                  customHeader = headers,
                  contentBody = Some retentionData,
                  contentLength = int (length retentionData),
                  contentMD5Base64 = sumMD5Base64 c retentionData,
                  contentSHA256Hex = sum256Hex c retentionData\<rparr>)))))"

text \<open>
  Lines 126-137: what is made of the transport's answer. (\<open>closeResponse\<close> only
  releases the response and is left out.)
\<close>

definition PutObjectRetention_response ::
  "string \<Rightarrow> string \<Rightarrow> response option \<times> error option \<Rightarrow> error option" where
  "PutObjectRetention_response bucket object out =
     (case snd out of
        Some err \<Rightarrow> Some err
      | None \<Rightarrow>
          (case fst out of
             None \<Rightarrow> None
           | Some resp \<Rightarrow>
               if StatusCode resp \<noteq> StatusOK \<and> StatusCode resp \<noteq> StatusNoContent
               then Some (ErrorResponse resp bucket object)
               else None))"

definition PutObjectRetention ::
  "('w, 'cfg) Client \<Rightarrow> string \<Rightarrow> string \<Rightarrow> PutObjectRetentionOptions \<Rightarrow> 'w \<Rightarrow> error option \<times> 'w" where
  "PutObjectRetention c bucket object opts w =
     (case PutObjectRetention_request c bucket object opts of
        Inl err \<Rightarrow> (Some err, w)
      | Inr reqMetadata \<Rightarrow>
          (case executeMethod c MethodPut reqMetadata w of
             (out, w') \<Rightarrow> (PutObjectRetention_response bucket object out, w')))"

subsection \<open>GetObjectRetention: lines 149-185\<close>

definition GetObjectRetention_request ::
  "('w, 'cfg) Client \<Rightarrow> string \<Rightarrow> string \<Rightarrow> string \<Rightarrow> error + requestMetadata" where
  "GetObjectRetention_request c bucket object versionID =
     (case CheckValidBucketName c bucket of
        Some err \<Rightarrow> Inl err
      | None \<Rightarrow>
     (case CheckValidObjectName c object of
        Some err \<Rightarrow> Inl err
      | None \<Rightarrow>
     (let urlValues0 = Values_Set Map.empty ''retention'' '''';
          urlValues = (if versionID \<noteq> ''''
                       then Values_Set urlValues0 ''versionId'' versionID
                       else urlValues0)
      in Inr \<lparr>bucketName = bucket,
               objectName = object,
               queryValues = urlValues,
               customHeader = Map.empty,
               contentBody = None,
               contentLength = 0,
               contentMD5Base64 = '''',
               contentSHA256Hex = emptySHA256Hex c\<rparr>)))"

text \<open>
  Lines 170-184. The three results are the mode pointer, the date pointer and the error.
  With a nil response and a nil error, line 180 reads \<open>resp.Body\<close> of a nil pointer.
  On success the first result is the address of the field \<open>Mode\<close> of the decoded
  struct.
\<close>

definition GetObjectRetention_response ::
  "('w, 'cfg) Client \<Rightarrow> string \<Rightarrow> string \<Rightarrow> response option \<times> error option
     \<Rightarrow> RetentionMode option \<times> Time option \<times> error option" where
  "GetObjectRetention_response c bucket object out =
     (case snd out of
        Some err \<Rightarrow> (None, None, Some err)
      | None \<Rightarrow>
          (case fst out of
             None \<Rightarrow> (None, None, Some NilPointerDereference)
           | Some resp \<Rightarrow>
               if StatusCode resp \<noteq> StatusOK
               then (None, None, Some (ErrorResponse resp bucket object))
               else
                 (case xml_Decode c (Body resp) zero_objectRetention of
                    Inl err \<Rightarrow> (None, None, Some err)
                  | Inr retention \<Rightarrow> (Some (Mode retention), RetainUntilDate retention, None))))"

definition GetObjectRetention ::
  "('w, 'cfg) Client \<Rightarrow> string \<Rightarrow> string \<Rightarrow> string \<Rightarrow> 'w
     \<Rightarrow> (RetentionMode option \<times> Time option \<times> error option) \<times> 'w" where
  "GetObjectRetention c bucket object versionID w =
     (case GetObjectRetention_request c bucket object versionID of
        Inl err \<Rightarrow> ((None, None, Some err), w)
      | Inr reqMetadata \<Rightarrow>
          (case executeMethod c MethodGet reqMetadata w of
             (out, w') \<Rightarrow> (GetObjectRetention_response c bucket object out, w')))"

subsection \<open>Bucket encryption: api-bucket-encryption.go\<close>

text \<open>
  Each function is the request it builds (or the error returned before the transport is
  reached), the call of the transport, and what is made of the answer. The three functions
  read \<open>resp.StatusCode\<close> without a nil check, so a nil response with a nil error
  panics. A nil \<open>config\<close> is \<open>None\<close>.
\<close>

definition SetBucketEncryption_request ::
  "('w, 'cfg) Client \<Rightarrow> string \<Rightarrow> 'cfg option \<Rightarrow> error + requestMetadata" where
  "SetBucketEncryption_request c bucket config =
     (case CheckValidBucketName c bucket of
        Some err \<Rightarrow> Inl err
      | None \<Rightarrow>
     (case config of
        None \<Rightarrow> Inl (InvalidArgument ''configuration cannot be empty'')
      | Some cfg \<Rightarrow>
     (case xml_Marshal_sse c cfg of
        Inl err \<Rightarrow> Inl err
      | Inr buf \<Rightarrow>
     (let urlValues = Values_Set Map.empty ''encryption'' ''''
      in Inr \<lparr>bucketName = bucket,
               objectName = '''',
               queryValues = urlValues,
               customHeader = Map.empty,
               contentBody = Some buf,
               contentLength = int (length buf),
               contentMD5Base64 = sumMD5Base64 c buf,
               contentSHA256Hex = ''''\<rparr>))))"

definition SetBucketEncryption_response ::
  "string \<Rightarrow> response option \<times> error option \<Rightarrow> error option" where
  "SetBucketEncryption_response bucket out =
     (case snd out of
        Some err \<Rightarrow> Some err
      | None \<Rightarrow>
          (case fst out of
             None \<Rightarrow> Some NilPointerDereference
           | Some resp \<Rightarrow>
               if StatusCode resp \<noteq> StatusOK
               then Some (ErrorResponse resp bucket '''')
               else None))"

definition SetBucketEncryption ::
  "('w, 'cfg) Client \<Rightarrow> string \<Rightarrow> 'cfg option \<Rightarrow> 'w \<Rightarrow> error option \<times> 'w" where
  "SetBucketEncryption c bucket config w =
     (case SetBucketEncryption_request c bucket config of
        Inl err \<Rightarrow> (Some err, w)
      | Inr reqMetadata \<Rightarrow>
          (case executeMethod c MethodPut reqMetadata w of
             (out, w') \<Rightarrow> (SetBucketEncryption_response bucket out, w')))"

definition RemoveBucketEncryption_request ::
  "('w, 'cfg) Client \<Rightarrow> string \<Rightarrow> error + requestMetadata" where
  "RemoveBucketEncryption_request c bucket =
     (case CheckValidBucketName c bucket of
        Some err \<Rightarrow> Inl err
      | None \<Rightarrow>
     (let urlValues = Values_Set Map.empty ''encryption'' ''''
      in Inr \<lparr>bucketName = bucket,
               objectName = '''',
               queryValues = urlValues,
               customHeader = Map.empty,
               contentBody = None,
               contentLength = 0,
               contentMD5Base64 = '''',
               contentSHA256Hex = emptySHA256Hex c\<rparr>))"

definition RemoveBucketEncryption_response ::
  "string \<Rightarrow> response option \<times> error option \<Rightarrow> error option" where
  "RemoveBucketEncryption_response bucket out =
     (case snd out of
        Some err \<Rightarrow> Some err
      | None \<Rightarrow>
          (case fst out of
             None \<Rightarrow> Some NilPointerDereference
           | Some resp \<Rightarrow>
               if StatusCode resp \<noteq> StatusOK \<and> StatusCode resp \<noteq> StatusNoContent
               then Some (ErrorResponse resp bucket '''')
               else None))"

definition RemoveBucketEncryption ::
  "('w, 'cfg) Client \<Rightarrow> string \<Rightarrow> 'w \<Rightarrow> error option \<times> 'w" where
  "RemoveBucketEncryption c bucket w =
     (case RemoveBucketEncryption_request c bucket of
        Inl err \<Rightarrow> (Some err, w)
      | Inr reqMetadata \<Rightarrow>
          (case executeMethod c MethodDelete reqMetadata w of
             (out, w') \<Rightarrow> (RemoveBucketEncryption_response bucket out, w')))"

definition GetBucketEncryption_request ::
  "('w, 'cfg) Client \<Rightarrow> string \<Rightarrow> error + requestMetadata" where
  "GetBucketEncryption_request c bucket =
     (case CheckValidBucketName c bucket of
        Some err \<Rightarrow> Inl err
      | None \<Rightarrow>
     (let urlValues = Values_Set Map.empty ''encryption'' ''''
      in Inr \<lparr>bucketName = bucket,
               objectName = '''',
               queryValues = urlValues,
               customHeader = Map.empty,
               contentBody = None,
               contentLength = 0,
               contentMD5Base64 = '''',
               contentSHA256Hex = ''''\<rparr>))"

definition GetBucketEncryption_response ::
  "('w, 'cfg) Client \<Rightarrow> string \<Rightarrow> response option \<times> error option \<Rightarrow> 'cfg option \<times> error option" where
  "GetBucketEncryption_response c bucket out =
     (case snd out of
        Some err \<Rightarrow> (None, Some err)
      | None \<Rightarrow>
          (case fst out of
             None \<Rightarrow> (None, Some NilPointerDereference)
           | Some resp \<Rightarrow>
               if StatusCode resp \<noteq> StatusOK
               then (None, Some (ErrorResponse resp bucket ''''))
               else
                 (case xmlDecoder_sse c (Body resp) of
                    Inl err \<Rightarrow> (None, Some err)
                  | Inr encryptionConfig \<Rightarrow> (Some encryptionConfig, None))))"

definition GetBucketEncryption ::
  "('w, 'cfg) Client \<Rightarrow> string \<Rightarrow> 'w \<Rightarrow> ('cfg option \<times> error option) \<times> 'w" where
  "GetBucketEncryption c bucket w =
     (case GetBucketEncryption_request c bucket of
        Inl err \<Rightarrow> ((None, Some err), w)
      | Inr reqMetadata \<Rightarrow>
          (case executeMethod c MethodGet reqMetadata w of
             (out, w') \<Rightarrow> (GetBucketEncryption_response c bucket out, w')))"

subsection \<open>A concrete client\<close>

text \<open>
  A client whose collaborators are small enough to evaluate, for the instances below. Its
  remote store is the list of the requests sent so far; the transport records the request
  and answers with the status and body it is given. The validators accept every non-empty
  name. The time codec knows the instant 2030-01-01T00:00:00Z (64029052800 seconds after
  the zero time) and the tokenizer knows the documents named below; both fail on every
  other input, as the library does on an empty one.
\<close>

definition instant_2030 :: Time where
  "instant_2030 = \<lparr>sec = 64029052800, nsec = 0\<rparr>"

definition governance_2030_doc :: string where
  "governance_2030_doc =
     ''<Retention><Mode>GOVERNANCE</Mode><RetainUntilDate>2030-01-01T00:00:00Z</RetainUntilDate></Retention>''"

definition stub_Token :: "string \<Rightarrow> error + xml_Name \<times> (string \<times> string) list \<times> xml list" where
  "stub_Token body =
     (if body = governance_2030_doc then
        Inr (local_name ''Retention'', [],
             [Element (local_name ''Mode'') [] [CharData ''GOVERNANCE''],
              Element (local_name ''RetainUntilDate'') [] [CharData ''2030-01-01T00:00:00Z'']])
      else if body = ''<Retention></Retention>'' then
        Inr (local_name ''Retention'', [], [])
      else Inl (External ''EOF''))"

definition stub_client :: "int \<Rightarrow> string \<Rightarrow> ((http_method \<times> requestMetadata) list, string) Client" where
  "stub_client status body =
     \<lparr>CheckValidBucketName = (\<lambda>b. if b = '''' then Some (External ''Bucket name cannot be empty'') else None),
      CheckValidObjectName = (\<lambda>ob. if ob = '''' then Some (External ''Object name cannot be empty'') else None),
      executeMethod = (\<lambda>m req w. ((Some \<lparr>StatusCode = status, Body = body\<rparr>, None), w @ [(m, req)])),
      sumMD5Base64 = (\<lambda>b. ''md5''),
      sum256Hex = (\<lambda>b. ''sha256''),
      amzBypassGovernance = ''X-Amz-Bypass-Governance-Retention'',
      emptySHA256Hex = ''e3b0c44298fc1c149afbf4c8996fb92427ae41e4649b934ca495991b7852b855'',
      MarshalText = (\<lambda>t. if t = instant_2030 then Inr ''2030-01-01T00:00:00Z''
                          else Inl (External ''Time.MarshalText'')),
      UnmarshalText = (\<lambda>s. if s = ''2030-01-01T00:00:00Z'' then Inr instant_2030
                            else Inl (External ''parsing time'')),
      xml_Token = stub_Token,
      xml_Marshal_sse = (\<lambda>cfg. Inr cfg),
      xmlDecoder_sse = (\<lambda>b. if b = '''' then Inl (External ''EOF'') else Inr b)\<rparr>"

text \<open>Whether a list of nodes has an element of the given local name.\<close>

fun has_element :: "string \<Rightarrow> xml list \<Rightarrow> bool" where
  "has_element name [] = False"
| "has_element name (CharData s # rest) = has_element name rest"
| "has_element name (Element n attrs children # rest) = (Local n = name \<or> has_element name rest)"

text \<open>
  Two sets of options for \<open>PutObjectRetention\<close> with the requests built from them for
  bucket \<open>b\<close> and object \<open>o\<close>: governance until 2030 on version \<open>v1\<close> without
  bypass, and compliance until 2030 with the bypass flag set.
\<close>

definition governance_retention :: objectRetention where
  "governance_retention =
     \<lparr>XMLNS = '''', XMLName = \<lparr>Space = '''', Local = ''''\<rparr>, Mode = ''GOVERNANCE'',
      RetainUntilDate = Some instant_2030\<rparr>"

definition governance_opts :: PutObjectRetentionOptions where
  "governance_opts =
     \<lparr>GovernanceBypass = False, opts_Mode = Some ''GOVERNANCE'',
      opts_RetainUntilDate = Some instant_2030, VersionID = ''v1''\<rparr>"

definition governance_request :: requestMetadata where
  "governance_request =
     \<lparr>bucketName = ''b'', objectName = ''o'',
      queryValues = [''retention'' \<mapsto> [''''], ''versionId'' \<mapsto> [''v1'']],
      customHeader = Map.empty,
      contentBody = Some governance_2030_doc,
      contentLength = 101, contentMD5Base64 = ''md5'', contentSHA256Hex = ''sha256''\<rparr>"



definition get_v1_request :: requestMetadata where
  "get_v1_request =
     \<lparr>bucketName = ''b'', objectName = ''o'',
      queryValues = [''retention'' \<mapsto> [''''], ''versionId'' \<mapsto> [''v1'']],
      customHeader = Map.empty,
      contentBody = None,
      contentLength = 0, contentMD5Base64 = '''',
      contentSHA256Hex = ''e3b0c44298fc1c149afbf4c8996fb92427ae41e4649b934ca495991b7852b855''\<rparr>"

definition not_found :: response where
  "not_found = \<lparr>StatusCode = 404, Body = ''''\<rparr>"

text \<open>
  The request that \<open>GetBucketEncryption\<close> builds for bucket \<open>b\<close>, and three
  responses with status 200: one with an empty body, one with the governance document and
  one with a body that the configuration decoder of the concrete client accepts.
\<close>

definition get_encryption_request :: requestMetadata where
  "get_encryption_request =
     \<lparr>bucketName = ''b'', objectName = '''',
      queryValues = [''encryption'' \<mapsto> ['''']],
      customHeader = Map.empty,
      contentBody = None,
      contentLength = 0, contentMD5Base64 = '''', contentSHA256Hex = ''''\<rparr>"

definition ok_empty :: response where
  "ok_empty = \<lparr>StatusCode = 200, Body = ''''\<rparr>"

definition ok_governance :: response where
  "ok_governance = \<lparr>StatusCode = 200, Body = governance_2030_doc\<rparr>"

definition ok_config :: response where
  "ok_config = \<lparr>StatusCode = 200, Body = ''AES256''\<rparr>"

section \<open>Properties\<close>

subsection \<open>Shared facts\<close>

lemma IsValid_iff: "IsValid m \<longleftrightarrow> m = ''GOVERNANCE'' \<or> m = ''COMPLIANCE''"
  by (simp add: IsValid_def Governance_def Compliance_def)

lemma newObjectRetention_cases:
  "newObjectRetention mode date =
     (case mode of
        None \<Rightarrow>
          Inr (zero_objectRetention
                 \<lparr>RetainUntilDate :=
                    (case date of None \<Rightarrow> None | Some t \<Rightarrow> if IsZero t then None else Some t)\<rparr>)
      | Some m \<Rightarrow>
          if IsValid m
          then Inr (zero_objectRetention
                      \<lparr>RetainUntilDate :=
                         (case date of None \<Rightarrow> None | Some t \<Rightarrow> if IsZero t then None else Some t),
                       Mode := m\<rparr>)
          else Inl (InvalidRetentionMode m))"
  by (simp add: newObjectRetention_def zero_objectRetention_def Let_def split: option.splits)

lemma not_IsZero_instant_2030: "\<not> IsZero instant_2030"
  by (simp add: IsZero_def instant_2030_def)

text \<open>The header and query fields of the two retention requests, whenever one is built.\<close>

lemma PutObjectRetention_request_fields:
  assumes "PutObjectRetention_request c bucket object opts = Inr req"
  shows "customHeader req =
           (if GovernanceBypass opts then [amzBypassGovernance c \<mapsto> [''true'']] else Map.empty)"
    and "queryValues req =
           (if VersionID opts \<noteq> ''''
            then [''retention'' \<mapsto> [''''], ''versionId'' \<mapsto> [VersionID opts]]
            else [''retention'' \<mapsto> ['''']])"
  using assms
  by (auto simp: PutObjectRetention_request_def Let_def Values_Set_def Header_Set_def
           split: option.splits sum.splits if_splits)


text \<open>The collaborators of the concrete client, and what it builds from the two options.\<close>

lemma stub_client_fields:
  "CheckValidBucketName (stub_client status body) ''b'' = None"
  "CheckValidObjectName (stub_client status body) ''o'' = None"
  "amzBypassGovernance (stub_client status body) = ''X-Amz-Bypass-Governance-Retention''"
  "MarshalText (stub_client status body) instant_2030 = Inr ''2030-01-01T00:00:00Z''"
  "UnmarshalText (stub_client status body) ''2030-01-01T00:00:00Z'' = Inr instant_2030"
  "xml_Token (stub_client status body) = stub_Token"
  "executeMethod (stub_client status body) m req w
     = ((Some \<lparr>StatusCode = status, Body = body\<rparr>, None), w @ [(m, req)])"
  by (simp_all add: stub_client_def)

lemma stub_Marshal_governance:
  "xml_Marshal (stub_client status body) governance_retention = Inr governance_2030_doc"
  by (simp add: xml_Marshal_def marshal_objectRetention_def governance_retention_def
        stub_client_fields text_content_def local_name_def EscapeText_def escape_char_def
        governance_2030_doc_def)

lemma stub_newObjectRetention_governance:
  "newObjectRetention (Some ''GOVERNANCE'') (Some instant_2030) = Inr governance_retention"
  by (simp add: newObjectRetention_cases IsValid_iff not_IsZero_instant_2030
        zero_objectRetention_def governance_retention_def)

lemma stub_request_governance:
  "PutObjectRetention_request (stub_client status body) ''b'' ''o'' governance_opts
     = Inr governance_request"
  by (simp add: PutObjectRetention_request_def governance_opts_def stub_client_fields
        stub_newObjectRetention_governance stub_Marshal_governance Values_Set_def)
     (simp add: stub_client_def governance_request_def governance_2030_doc_def)


lemma stub_request_get_v1:
  "GetObjectRetention_request (stub_client status body) ''b'' ''o'' ''v1'' = Inr get_v1_request"
  by (simp add: GetObjectRetention_request_def stub_client_def Values_Set_def get_v1_request_def)

subsection \<open>Construction of a retention configuration\<close>

text \<open>
  C1. \<open>newObjectRetention\<close> returns an error exactly when a mode is supplied that is
  neither \<open>GOVERNANCE\<close> nor \<open>COMPLIANCE\<close>, and the error is then the
  invalid-retention-mode error for that mode, whatever the date. With neither a mode nor a
  date it succeeds, and the configuration has an empty mode and no date.
\<close>

theorem newObjectRetention_invalid_mode:
  "(newObjectRetention mode date = Inl e
      \<longleftrightarrow> (\<exists>m. mode = Some m \<and> m \<noteq> ''GOVERNANCE'' \<and> m \<noteq> ''COMPLIANCE''
                \<and> e = InvalidRetentionMode m))
   \<and> newObjectRetention None None = Inr zero_objectRetention
   \<and> Mode zero_objectRetention = ''''
   \<and> RetainUntilDate zero_objectRetention = None"
  by (auto simp: newObjectRetention_cases IsValid_iff zero_objectRetention_def
           split: option.splits)

theorem newObjectRetention_invalid_mode_witness:
  "newObjectRetention (Some ''INVALID'') None = Inl (InvalidRetentionMode ''INVALID'')"
  using newObjectRetention_invalid_mode [of "Some ''INVALID''" None "InvalidRetentionMode ''INVALID''"]
  by simp

text \<open>
  C9. A date that is supplied but is the zero time is dropped: the configuration built has
  a date exactly when the date supplied is non-nil and not zero (and it is then the date
  supplied), so a zero date gives the result of a nil date.
\<close>

theorem newObjectRetention_zero_date:
  "(newObjectRetention mode date = Inr r \<longrightarrow>
      (RetainUntilDate r \<noteq> None \<longleftrightarrow> (\<exists>t. date = Some t \<and> \<not> IsZero t))
      \<and> (RetainUntilDate r \<noteq> None \<longrightarrow> RetainUntilDate r = date))
   \<and> (IsZero t \<longrightarrow> newObjectRetention mode (Some t) = newObjectRetention mode None)"
  by (auto simp: newObjectRetention_cases split: option.splits if_splits)

theorem newObjectRetention_zero_date_witness:
  "newObjectRetention (Some ''GOVERNANCE'') (Some \<lparr>sec = 0, nsec = 0\<rparr>)
     = Inr (zero_objectRetention\<lparr>Mode := ''GOVERNANCE''\<rparr>)
   \<and> RetainUntilDate (zero_objectRetention\<lparr>Mode := ''GOVERNANCE''\<rparr>) = None
   \<and> IsZero \<lparr>sec = 0, nsec = 0\<rparr>
   \<and> newObjectRetention (Some ''GOVERNANCE'') (Some \<lparr>sec = 0, nsec = 0\<rparr>)
       = newObjectRetention (Some ''GOVERNANCE'') None"
  using newObjectRetention_zero_date [of "Some ''GOVERNANCE''" "Some \<lparr>sec = 0, nsec = 0\<rparr>"
      "zero_objectRetention\<lparr>Mode := ''GOVERNANCE''\<rparr>" "\<lparr>sec = 0, nsec = 0\<rparr>"]
  by (simp add: newObjectRetention_cases IsValid_iff IsZero_def zero_objectRetention_def)

subsection \<open>The request of PutObjectRetention and GetObjectRetention\<close>

text \<open>
  C3. In every request that \<open>PutObjectRetention\<close> builds, the governance-bypass header
  is present with the value \<open>true\<close> exactly when the caller set \<open>GovernanceBypass\<close>;
  the header never has another value, and with the flag false the request has no header
  at all.
\<close>

theorem PutObjectRetention_bypass_header:
  assumes "PutObjectRetention_request c bucket object opts = Inr req"
  shows "(customHeader req (amzBypassGovernance c) = Some [''true''] \<longleftrightarrow> GovernanceBypass opts)
         \<and> (\<forall>v. customHeader req (amzBypassGovernance c) = Some v \<longrightarrow> v = [''true''])
         \<and> (\<not> GovernanceBypass opts \<longrightarrow> customHeader req = Map.empty)"
  using PutObjectRetention_request_fields(1) [OF assms] by simp

theorem PutObjectRetention_bypass_header_witness:
  "PutObjectRetention_request (stub_client 200 '''') ''b'' ''o'' governance_opts
     = Inr governance_request
   \<and> \<not> GovernanceBypass governance_opts
   \<and> customHeader governance_request = Map.empty
   \<and> customHeader governance_request ''X-Amz-Bypass-Governance-Retention'' \<noteq> Some [''true'']"
  using PutObjectRetention_bypass_header [OF stub_request_governance [of 200 "''''"]]
  by (simp add: stub_request_governance stub_client_fields) (simp add: governance_opts_def)






subsection \<open>SetBucketEncryption without a configuration\<close>

text \<open>
  C6. With a bucket name that passes validation and a nil configuration,
  \<open>SetBucketEncryption\<close> returns the invalid-argument error and leaves the remote
  store as it was. No request is built, and the result is the same whatever the encoder of
  the configuration and the transport are, so neither is reached.
\<close>

theorem SetBucketEncryption_nil_config:
  assumes "CheckValidBucketName c bucket = None"
  shows "SetBucketEncryption c bucket None w
           = (Some (InvalidArgument ''configuration cannot be empty''), w)
         \<and> SetBucketEncryption (c\<lparr>executeMethod := transport, xml_Marshal_sse := encoder\<rparr>) bucket None w
           = (Some (InvalidArgument ''configuration cannot be empty''), w)
         \<and> SetBucketEncryption_request c bucket None
           = Inl (InvalidArgument ''configuration cannot be empty'')"
  using assms by (simp add: SetBucketEncryption_def SetBucketEncryption_request_def)

theorem SetBucketEncryption_nil_config_witness:
  "CheckValidBucketName
     (stub_client 200 '''' :: ((http_method \<times> requestMetadata) list, string) Client) ''b'' = None
   \<and> SetBucketEncryption (stub_client 200 '''') ''b'' None []
       = (Some (InvalidArgument ''configuration cannot be empty''), [])"
proof -
  have h: "CheckValidBucketName
     (stub_client 200 '''' :: ((http_method \<times> requestMetadata) list, string) Client) ''b'' = None"
    by (simp add: stub_client_fields)
  from SetBucketEncryption_nil_config [OF h, of "[]"] h show ?thesis by simp
qed

subsection \<open>What is made of the transport's answer\<close>

lemma stub_request_get_encryption:
  "GetBucketEncryption_request (stub_client status body) ''b'' = Inr get_encryption_request"
  by (simp add: GetBucketEncryption_request_def stub_client_def Values_Set_def
        get_encryption_request_def)

lemma stub_Decode_empty:
  "xml_Decode (stub_client status body) '''' zero_objectRetention = Inl (External ''EOF'')"
  by (simp add: xml_Decode_def stub_client_fields stub_Token_def governance_2030_doc_def)

lemma stub_Decode_governance:
  "xml_Decode (stub_client status body) governance_2030_doc zero_objectRetention
     = Inr (governance_retention\<lparr>XMLName := local_name ''Retention''\<rparr>)"
  by (simp add: xml_Decode_def stub_client_fields stub_Token_def unmarshal_objectRetention_def
        local_name_def zero_objectRetention_def governance_retention_def)

lemma stub_xmlDecoder_sse:
  "xmlDecoder_sse (stub_client status body) '''' = Inl (External ''EOF'')"
  "xmlDecoder_sse (stub_client status body) ''AES256'' = Inr ''AES256''"
  by (simp_all add: stub_client_def)

text \<open>
  C5, as the code has it. \<open>GetObjectRetention\<close> and \<open>GetBucketEncryption\<close> on a
  response with status 200 and an empty body do not succeed: the decoder finds no element
  and its error is returned. So neither a retention GET nor an encryption GET succeeds on
  every response with status 200.
\<close>

theorem get_status_200_counterexample:
  "GetObjectRetention (stub_client 200 '''') ''b'' ''o'' ''v1'' []
     = ((None, None, Some (External ''EOF'')), [(MethodGet, get_v1_request)])
   \<and> GetObjectRetention_response (stub_client 200 '''') ''b'' ''o''
         (Some \<lparr>StatusCode = 200, Body = ''''\<rparr>, None)
     = (None, None, Some (External ''EOF''))
   \<and> GetBucketEncryption (stub_client 200 '''') ''b'' []
     = ((None, Some (External ''EOF'')), [(MethodGet, get_encryption_request)])
   \<and> GetBucketEncryption_response (stub_client 200 '''') ''b''
         (Some \<lparr>StatusCode = 200, Body = ''''\<rparr>, None)
     = (None, Some (External ''EOF''))"
  by (simp add: GetObjectRetention_def stub_request_get_v1 stub_client_fields
        GetObjectRetention_response_def StatusOK_def stub_Decode_empty
        GetBucketEncryption_def stub_request_get_encryption
        GetBucketEncryption_response_def stub_xmlDecoder_sse)

text \<open>
  C5, amended. For every response that the transport returns without an error: setting
  retention succeeds exactly on status 200 or 204, setting encryption exactly on status
  200, removing encryption exactly on status 200 or 204. Getting retention and getting
  encryption succeed exactly when the status is 200 and the body decodes: on status 200
  with a body that does not decode, the error of the decoder is the error returned, with
  no value; on status 200 with a body that decodes, the decoded value is returned with no
  error (for retention, the mode and the date of the decoded document). On every other
  status each of the five returns the service error built from the response, the bucket
  and, for retention, the object (the empty object name for encryption), and the two GETs
  return no value with it.
\<close>

theorem response_status_classification:
  "(PutObjectRetention_response bucket object (Some resp, None) = None
      \<longleftrightarrow> StatusCode resp = 200 \<or> StatusCode resp = 204)
   \<and> (SetBucketEncryption_response bucket (Some resp, None) = None
      \<longleftrightarrow> StatusCode resp = 200)
   \<and> (RemoveBucketEncryption_response bucket (Some resp, None) = None
      \<longleftrightarrow> StatusCode resp = 200 \<or> StatusCode resp = 204)
   \<and> (snd (snd (GetObjectRetention_response c bucket object (Some resp, None))) = None
      \<longleftrightarrow> StatusCode resp = 200 \<and> \<not> isl (xml_Decode c (Body resp) zero_objectRetention))
   \<and> (snd (GetBucketEncryption_response c bucket (Some resp, None)) = None
      \<longleftrightarrow> StatusCode resp = 200 \<and> \<not> isl (xmlDecoder_sse c (Body resp)))
   \<and> (StatusCode resp \<noteq> 200 \<and> StatusCode resp \<noteq> 204 \<longrightarrow>
        PutObjectRetention_response bucket object (Some resp, None)
          = Some (ErrorResponse resp bucket object)
        \<and> RemoveBucketEncryption_response bucket (Some resp, None)
          = Some (ErrorResponse resp bucket ''''))
   \<and> (StatusCode resp \<noteq> 200 \<longrightarrow>
        SetBucketEncryption_response bucket (Some resp, None)
          = Some (ErrorResponse resp bucket '''')
        \<and> GetObjectRetention_response c bucket object (Some resp, None)
          = (None, None, Some (ErrorResponse resp bucket object))
        \<and> GetBucketEncryption_response c bucket (Some resp, None)
          = (None, Some (ErrorResponse resp bucket '''')))
   \<and> (\<forall>err. StatusCode resp = 200
           \<and> xml_Decode c (Body resp) zero_objectRetention = Inl err \<longrightarrow>
        GetObjectRetention_response c bucket object (Some resp, None) = (None, None, Some err))
   \<and> (\<forall>retention. StatusCode resp = 200
           \<and> xml_Decode c (Body resp) zero_objectRetention = Inr retention \<longrightarrow>
        GetObjectRetention_response c bucket object (Some resp, None)
          = (Some (Mode retention), RetainUntilDate retention, None))
   \<and> (\<forall>err. StatusCode resp = 200 \<and> xmlDecoder_sse c (Body resp) = Inl err \<longrightarrow>
        GetBucketEncryption_response c bucket (Some resp, None) = (None, Some err))
   \<and> (\<forall>encryptionConfig. StatusCode resp = 200
           \<and> xmlDecoder_sse c (Body resp) = Inr encryptionConfig \<longrightarrow>
        GetBucketEncryption_response c bucket (Some resp, None) = (Some encryptionConfig, None))"
proof -
  have put: "PutObjectRetention_response bucket object (Some resp, None)
               = (if StatusCode resp = 200 \<or> StatusCode resp = 204 then None
                  else Some (ErrorResponse resp bucket object))"
    by (simp add: PutObjectRetention_response_def StatusOK_def StatusNoContent_def)
  have set: "SetBucketEncryption_response bucket (Some resp, None)
               = (if StatusCode resp = 200 then None else Some (ErrorResponse resp bucket ''''))"
    by (simp add: SetBucketEncryption_response_def StatusOK_def)
  have remove: "RemoveBucketEncryption_response bucket (Some resp, None)
               = (if StatusCode resp = 200 \<or> StatusCode resp = 204 then None
                  else Some (ErrorResponse resp bucket ''''))"
    by (simp add: RemoveBucketEncryption_response_def StatusOK_def StatusNoContent_def)
  have get: "GetObjectRetention_response c bucket object (Some resp, None)
               = (if StatusCode resp = 200
                  then (case xml_Decode c (Body resp) zero_objectRetention of
                          Inl err \<Rightarrow> (None, None, Some err)
                        | Inr retention \<Rightarrow> (Some (Mode retention), RetainUntilDate retention, None))
                  else (None, None, Some (ErrorResponse resp bucket object)))"
    by (simp add: GetObjectRetention_response_def StatusOK_def)
  have getenc: "GetBucketEncryption_response c bucket (Some resp, None)
               = (if StatusCode resp = 200
                  then (case xmlDecoder_sse c (Body resp) of
                          Inl err \<Rightarrow> (None, Some err)
                        | Inr encryptionConfig \<Rightarrow> (Some encryptionConfig, None))
                  else (None, Some (ErrorResponse resp bucket '''')))"
    by (simp add: GetBucketEncryption_response_def StatusOK_def)
  show ?thesis
    unfolding put set remove get getenc
    by (auto split: sum.splits)
qed

theorem response_status_classification_witness:
  "StatusCode not_found \<noteq> 200 \<and> StatusCode not_found \<noteq> 204
   \<and> PutObjectRetention_response ''b'' ''o'' (Some not_found, None)
       = Some (ErrorResponse not_found ''b'' ''o'')
   \<and> RemoveBucketEncryption_response ''b'' (Some not_found, None)
       = Some (ErrorResponse not_found ''b'' '''')
   \<and> SetBucketEncryption_response ''b'' (Some not_found, None)
       = Some (ErrorResponse not_found ''b'' '''')
   \<and> GetObjectRetention_response (stub_client 404 '''') ''b'' ''o'' (Some not_found, None)
       = (None, None, Some (ErrorResponse not_found ''b'' ''o''))
   \<and> GetBucketEncryption_response (stub_client 404 '''') ''b'' (Some not_found, None)
       = (None, Some (ErrorResponse not_found ''b'' ''''))
   \<and> StatusCode ok_empty = 200
   \<and> xml_Decode (stub_client 404 '''') (Body ok_empty) zero_objectRetention
       = Inl (External ''EOF'')
   \<and> GetObjectRetention_response (stub_client 404 '''') ''b'' ''o'' (Some ok_empty, None)
       = (None, None, Some (External ''EOF''))
   \<and> xmlDecoder_sse (stub_client 404 '''') (Body ok_empty) = Inl (External ''EOF'')
   \<and> GetBucketEncryption_response (stub_client 404 '''') ''b'' (Some ok_empty, None)
       = (None, Some (External ''EOF''))
   \<and> StatusCode ok_governance = 200
   \<and> xml_Decode (stub_client 404 '''') (Body ok_governance) zero_objectRetention
       = Inr (governance_retention\<lparr>XMLName := local_name ''Retention''\<rparr>)
   \<and> GetObjectRetention_response (stub_client 404 '''') ''b'' ''o'' (Some ok_governance, None)
       = (Some ''GOVERNANCE'', Some instant_2030, None)
   \<and> StatusCode ok_config = 200
   \<and> xmlDecoder_sse (stub_client 404 '''') (Body ok_config) = Inr ''AES256''
   \<and> GetBucketEncryption_response (stub_client 404 '''') ''b'' (Some ok_config, None)
       = (Some ''AES256'', None)"
proof -
  let ?c = "stub_client 404 ''''"
  have h: "StatusCode not_found \<noteq> 200 \<and> StatusCode not_found \<noteq> 204"
    by (simp add: not_found_def)
  have e: "StatusCode ok_empty = 200"
          "xml_Decode ?c (Body ok_empty) zero_objectRetention = Inl (External ''EOF'')"
          "xmlDecoder_sse ?c (Body ok_empty) = Inl (External ''EOF'')"
    by (simp_all add: ok_empty_def stub_Decode_empty stub_xmlDecoder_sse)
  have g: "StatusCode ok_governance = 200"
          "xml_Decode ?c (Body ok_governance) zero_objectRetention
             = Inr (governance_retention\<lparr>XMLName := local_name ''Retention''\<rparr>)"
    by (simp_all add: ok_governance_def stub_Decode_governance)
  have k: "StatusCode ok_config = 200"
          "xmlDecoder_sse ?c (Body ok_config) = Inr ''AES256''"
    by (simp_all add: ok_config_def stub_xmlDecoder_sse)
  have fields: "Mode (governance_retention\<lparr>XMLName := local_name ''Retention''\<rparr>) = ''GOVERNANCE''"
               "RetainUntilDate (governance_retention\<lparr>XMLName := local_name ''Retention''\<rparr>)
                  = Some instant_2030"
    by (simp_all add: governance_retention_def)
  from response_status_classification [of "''b''" "''o''" not_found ?c] h
  have nf: "PutObjectRetention_response ''b'' ''o'' (Some not_found, None)
              = Some (ErrorResponse not_found ''b'' ''o'')"
           "RemoveBucketEncryption_response ''b'' (Some not_found, None)
              = Some (ErrorResponse not_found ''b'' '''')"
           "SetBucketEncryption_response ''b'' (Some not_found, None)
              = Some (ErrorResponse not_found ''b'' '''')"
           "GetObjectRetention_response ?c ''b'' ''o'' (Some not_found, None)
              = (None, None, Some (ErrorResponse not_found ''b'' ''o''))"
           "GetBucketEncryption_response ?c ''b'' (Some not_found, None)
              = (None, Some (ErrorResponse not_found ''b'' ''''))"
    by simp_all
  from response_status_classification [of "''b''" "''o''" ok_empty ?c] e
  have em: "GetObjectRetention_response ?c ''b'' ''o'' (Some ok_empty, None)
              = (None, None, Some (External ''EOF''))"
           "GetBucketEncryption_response ?c ''b'' (Some ok_empty, None)
              = (None, Some (External ''EOF''))"
    by simp_all
  from response_status_classification [of "''b''" "''o''" ok_governance ?c] g fields
  have gv: "GetObjectRetention_response ?c ''b'' ''o'' (Some ok_governance, None)
              = (Some ''GOVERNANCE'', Some instant_2030, None)"
    by simp
  from response_status_classification [of "''b''" "''o''" ok_config ?c] k
  have cf: "GetBucketEncryption_response ?c ''b'' (Some ok_config, None) = (Some ''AES256'', None)"
    by simp
  from h e g k nf em gv cf show ?thesis by simp
qed

subsection \<open>The retention document on the wire\<close>


lemma unmarshal_attrs_fields:
  "Mode (unmarshal_attrs attrs r) = Mode r"
  "RetainUntilDate (unmarshal_attrs attrs r) = RetainUntilDate r"
  by (induction attrs r rule: unmarshal_attrs.induct) auto


lemma unmarshal_children_no_Mode:
  "\<not> has_element ''Mode'' cs \<Longrightarrow> unmarshal_children ut cs r = Inr r' \<Longrightarrow> Mode r' = Mode r"
  by (induction ut cs r rule: unmarshal_children.induct) (auto split: sum.splits if_splits)





subsection \<open>Setting governance retention until 2030\<close>

lemma xml_Marshal_governance_2030:
  assumes "MarshalText c instant_2030 = Inr ''2030-01-01T00:00:00Z''"
  shows "xml_Marshal c (zero_objectRetention\<lparr>RetainUntilDate := Some instant_2030, Mode := ''GOVERNANCE''\<rparr>)
           = Inr ''<Retention><Mode>GOVERNANCE</Mode><RetainUntilDate>2030-01-01T00:00:00Z</RetainUntilDate></Retention>''"
  using assms
  by (simp add: xml_Marshal_def marshal_objectRetention_def zero_objectRetention_def
        text_content_def local_name_def EscapeText_def escape_char_def)

lemma PutObjectRetention_ok:
  assumes "PutObjectRetention_request c bucket object opts = Inr req"
      and "executeMethod c MethodPut req w = ((Some resp, None), w')"
      and "StatusCode resp = 200 \<or> StatusCode resp = 204"
  shows "PutObjectRetention c bucket object opts w = (None, w')"
  using assms
  by (auto simp: PutObjectRetention_def PutObjectRetention_response_def StatusOK_def
        StatusNoContent_def)

text \<open>
  C8. Take a bucket and an object name that pass validation, the mode \<open>GOVERNANCE\<close> and
  the date 2030-01-01T00:00:00Z, that is, the instant whose text is that string. Then
  \<open>PutObjectRetention\<close> builds a request whose body is exactly
  \<open><Retention><Mode>GOVERNANCE</Mode><RetainUntilDate>2030-01-01T00:00:00Z</RetainUntilDate></Retention>\<close>,
  and whenever the transport answers this request with status 200 and no error, the call
  returns no error.
\<close>

theorem governance_2030_scenario:
  assumes "CheckValidBucketName c bucket = None"
      and "CheckValidObjectName c object = None"
      and "MarshalText c instant_2030 = Inr ''2030-01-01T00:00:00Z''"
      and "opts_Mode opts = Some ''GOVERNANCE''"
      and "opts_RetainUntilDate opts = Some instant_2030"
  shows "\<exists>req. PutObjectRetention_request c bucket object opts = Inr req
           \<and> contentBody req = Some ''<Retention><Mode>GOVERNANCE</Mode><RetainUntilDate>2030-01-01T00:00:00Z</RetainUntilDate></Retention>''
           \<and> (\<forall>w resp w'. executeMethod c MethodPut req w = ((Some resp, None), w')
                   \<and> StatusCode resp = 200
                 \<longrightarrow> PutObjectRetention c bucket object opts w = (None, w'))"
proof -
  have n: "newObjectRetention (opts_Mode opts) (opts_RetainUntilDate opts)
             = Inr (zero_objectRetention\<lparr>RetainUntilDate := Some instant_2030, Mode := ''GOVERNANCE''\<rparr>)"
    using assms(4,5) not_IsZero_instant_2030 by (simp add: newObjectRetention_cases IsValid_iff)
  obtain req where req: "PutObjectRetention_request c bucket object opts = Inr req"
    and body: "contentBody req = Some ''<Retention><Mode>GOVERNANCE</Mode><RetainUntilDate>2030-01-01T00:00:00Z</RetainUntilDate></Retention>''"
    using assms(1,2) n xml_Marshal_governance_2030 [OF assms(3)]
    by (simp add: PutObjectRetention_request_def Let_def)
  from req body PutObjectRetention_ok [OF req] show ?thesis by blast
qed

theorem governance_2030_scenario_witness:
  "CheckValidBucketName (stub_client 200 '''' :: ((http_method \<times> requestMetadata) list, string) Client) ''b'' = None
   \<and> CheckValidObjectName (stub_client 200 '''' :: ((http_method \<times> requestMetadata) list, string) Client) ''o'' = None
   \<and> MarshalText (stub_client 200 '''' :: ((http_method \<times> requestMetadata) list, string) Client) instant_2030
       = Inr ''2030-01-01T00:00:00Z''
   \<and> opts_Mode governance_opts = Some ''GOVERNANCE''
   \<and> opts_RetainUntilDate governance_opts = Some instant_2030
   \<and> PutObjectRetention_request (stub_client 200 '''') ''b'' ''o'' governance_opts
       = Inr governance_request
   \<and> contentBody governance_request = Some governance_2030_doc
   \<and> PutObjectRetention (stub_client 200 '''') ''b'' ''o'' governance_opts []
       = (None, [(MethodPut, governance_request)])"
proof -
  let ?c = "stub_client 200 '''' :: ((http_method \<times> requestMetadata) list, string) Client"
  have m: "opts_Mode governance_opts = Some ''GOVERNANCE''"
    and d: "opts_RetainUntilDate governance_opts = Some instant_2030"
    by (simp_all add: governance_opts_def)
  from governance_2030_scenario [of ?c "''b''" "''o''" governance_opts,
      OF stub_client_fields(1) stub_client_fields(2) stub_client_fields(4) m d]
  have run: "\<And>w resp w'. executeMethod ?c MethodPut governance_request w = ((Some resp, None), w')
               \<Longrightarrow> StatusCode resp = 200
               \<Longrightarrow> PutObjectRetention ?c ''b'' ''o'' governance_opts w = (None, w')"
    by (auto simp: stub_request_governance)
  have "PutObjectRetention ?c ''b'' ''o'' governance_opts [] = (None, [] @ [(MethodPut, governance_request)])"
    by (rule run [OF stub_client_fields(7)]) simp
  then show ?thesis
    by (simp add: stub_client_fields m d stub_request_governance)
       (simp add: governance_request_def)
qed

subsection \<open>The mode pointer returned by GetObjectRetention\<close>

lemma xml_Decode_no_Mode:
  assumes "xml_Decode c body zero_objectRetention = Inr r"
      and "xml_Token c body = Inr (n, attrs, cs)"
      and "\<not> has_element ''Mode'' cs"
  shows "Mode r = ''''"
proof -
  from assms(1,2)
  have "unmarshal_children (UnmarshalText c) cs
          (unmarshal_attrs attrs (zero_objectRetention\<lparr>XMLName := n\<rparr>)) = Inr r"
    by (simp add: xml_Decode_def unmarshal_objectRetention_def split: if_splits)
  from unmarshal_children_no_Mode [OF assms(3) this] show ?thesis
    by (simp add: unmarshal_attrs_fields zero_objectRetention_def)
qed

text \<open>
  C10. Whenever \<open>GetObjectRetention\<close> returns a nil error, the mode pointer it returns
  is not nil. If, moreover, the element read from the body of the response has no
  \<open>Mode\<close> child, the pointer is to the empty mode.
\<close>

theorem GetObjectRetention_mode_pointer:
  assumes "GetObjectRetention c bucket object versionID w = ((mode, date, None), w')"
  shows "mode \<noteq> None
         \<and> (\<forall>req resp err n attrs cs.
               GetObjectRetention_request c bucket object versionID = Inr req
               \<and> fst (executeMethod c MethodGet req w) = (Some resp, err)
               \<and> xml_Token c (Body resp) = Inr (n, attrs, cs)
               \<and> \<not> has_element ''Mode'' cs
               \<longrightarrow> mode = Some '''')"
proof -
  from assms obtain req where req: "GetObjectRetention_request c bucket object versionID = Inr req"
    by (auto simp: GetObjectRetention_def split: sum.splits)
  obtain out w1 where ex: "executeMethod c MethodGet req w = (out, w1)"
    by (cases "executeMethod c MethodGet req w") auto
  from assms req ex
  have "GetObjectRetention_response c bucket object out = (mode, date, None)"
    by (simp add: GetObjectRetention_def)
  then obtain resp r where out: "out = (Some resp, None)"
    and dec: "xml_Decode c (Body resp) zero_objectRetention = Inr r"
    and mode: "mode = Some (Mode r)"
    by (cases out)
       (auto simp: GetObjectRetention_response_def split: option.splits if_splits sum.splits)
  show ?thesis
  proof (intro conjI allI impI)
    show "mode \<noteq> None" using mode by simp
  next
    fix req' resp' err n attrs cs
    assume a: "GetObjectRetention_request c bucket object versionID = Inr req'
               \<and> fst (executeMethod c MethodGet req' w) = (Some resp', err)
               \<and> xml_Token c (Body resp') = Inr (n, attrs, cs)
               \<and> \<not> has_element ''Mode'' cs"
    with req ex out have "resp' = resp" by simp
    with a dec have "Mode r = ''''" using xml_Decode_no_Mode by blast
    with mode show "mode = Some ''''" by simp
  qed
qed

theorem GetObjectRetention_mode_pointer_witness:
  "GetObjectRetention (stub_client 200 ''<Retention></Retention>'') ''b'' ''o'' ''v1'' []
     = ((Some '''', None, None), [(MethodGet, get_v1_request)])
   \<and> xml_Token (stub_client 200 ''<Retention></Retention>'' :: ((http_method \<times> requestMetadata) list, string) Client)
        ''<Retention></Retention>'' = Inr (local_name ''Retention'', [], [])
   \<and> \<not> has_element ''Mode'' []"
proof -
  let ?c = "stub_client 200 ''<Retention></Retention>'' :: ((http_method \<times> requestMetadata) list, string) Client"
  have tok: "xml_Token ?c ''<Retention></Retention>'' = Inr (local_name ''Retention'', [], [])"
    by (simp add: stub_client_fields stub_Token_def governance_2030_doc_def)
  obtain mode date err w' where
    run: "GetObjectRetention ?c ''b'' ''o'' ''v1'' [] = ((mode, date, err), w')"
    by (metis prod.exhaust)
  from run have rest: "date = None" "err = None" "w' = [(MethodGet, get_v1_request)]"
    by (simp_all add: GetObjectRetention_def stub_request_get_v1 stub_client_fields
          GetObjectRetention_response_def StatusOK_def xml_Decode_def stub_Token_def
          governance_2030_doc_def unmarshal_objectRetention_def local_name_def
          zero_objectRetention_def)
  from run rest have ok: "GetObjectRetention ?c ''b'' ''o'' ''v1'' [] = ((mode, date, None), w')"
    by simp
  from GetObjectRetention_mode_pointer [OF ok]
  have "mode = Some ''''"
    using stub_request_get_v1 [of 200 "''<Retention></Retention>''"] tok
    by (auto simp: stub_client_fields)
  with run rest tok show ?thesis by simp
qed

end
